theory Spec2Isabelle
  imports Complex_Main "HOL-Library.AList"
begin

section \<open>JavaScript values\<close>

text \<open>
  The library is TypeScript; at run time its data are JavaScript values. A number is an
  IEEE double: a finite value, which is a rational, or one of the infinities, or \<open>NaN\<close>
  (the two zeros are not told apart; nothing here divides by one or prints its sign). The
  comparisons of two numbers are exact and are defined below; the arithmetic, which rounds,
  is the language's and is a parameter.
\<close>

datatype jsnum = Fin rat | PosInf | NegInf | NaN

text \<open>\<^verbatim>\<open>a <= b\<close> and \<^verbatim>\<open>a >= b\<close> on numbers: false as soon as one side is \<open>NaN\<close>.\<close>

fun num_le :: "jsnum \<Rightarrow> jsnum \<Rightarrow> bool" where
  "num_le NaN b = False"
| "num_le a NaN = False"
| "num_le NegInf b = True"
| "num_le a PosInf = True"
| "num_le (Fin x) (Fin y) = (x \<le> y)"
| "num_le PosInf b = False"
| "num_le (Fin x) NegInf = False"

definition num_ge :: "jsnum \<Rightarrow> jsnum \<Rightarrow> bool" where
  "num_ge a b = num_le b a"

text \<open>
  A string is the list of its characters, an object the ordered list of its own
  properties. \<open>JRegExp\<close> carries the source of a regular expression, \<open>JServerTimestamp\<close> is
  the sentinel returned by Firestore's \<^verbatim>\<open>serverTimestamp()\<close>, and \<open>JFunction\<close> is a
  function, known by its name only.
\<close>

datatype jsval =
    JUndefined
  | JNull
  | JBool bool
  | JNum jsnum
  | JStr string
  | JRegExp string
  | JServerTimestamp
  | JFunction string
  | JArr "jsval list"
  | JObj "(string \<times> jsval) list"

type_synonym jsobj = "(string \<times> jsval) list"

text \<open>Truthiness, as used by \<^verbatim>\<open>if (x)\<close>, \<^verbatim>\<open>!x\<close>, \<^verbatim>\<open>x && y\<close> and \<^verbatim>\<open>x || y\<close>.\<close>

fun truthy :: "jsval \<Rightarrow> bool" where
  "truthy JUndefined = False"
| "truthy JNull = False"
| "truthy (JBool b) = b"
| "truthy (JNum n) = (n \<noteq> Fin 0 \<and> n \<noteq> NaN)"
| "truthy (JStr s) = (s \<noteq> [])"
| "truthy _ = True"

text \<open>Read of an own property \<^verbatim>\<open>o[k]\<close> of an object; a missing property reads as
  \<open>undefined\<close>. The property write \<^verbatim>\<open>o[k] = v\<close> is \<^const>\<open>AList.update\<close>: a write to an
  existing key keeps its position, a new key is appended.\<close>

fun obj_get :: "jsobj \<Rightarrow> string \<Rightarrow> jsval" where
  "obj_get [] k = JUndefined"
| "obj_get ((k', v) # kvs) k = (if k' = k then v else obj_get kvs k)"

text \<open>Decimal rendering of an array index or a count, as \<^verbatim>\<open>String(n)\<close> gives it for such
  an integer.\<close>

fun digits :: "nat \<Rightarrow> string" where
  "digits n = (if n < 10 then [char_of (48 + n)] else digits (n div 10) @ [char_of (48 + n mod 10)])"

declare digits.simps [simp del]

definition string_of_int :: "int \<Rightarrow> string" where
  "string_of_int n = (if n < 0 then CHR ''-'' # digits (nat (- n)) else digits (nat n))"

fun intercalate :: "string \<Rightarrow> string list \<Rightarrow> string" where
  "intercalate sep [] = []"
| "intercalate sep [s] = s"
| "intercalate sep (s # t # ss) = s @ sep @ intercalate sep (t # ss)"

text \<open>
  The built-ins of the language that the library calls and whose results depend on
  floating-point rounding, on Unicode, on object identity or on the prototype chain are
  parameters, so every statement below holds for whatever they do:
  \<^item> \<open>num_sub a b\<close> is \<^verbatim>\<open>a - b\<close> on numbers;
  \<^item> \<open>num_to_string n\<close> is \<^verbatim>\<open>String(n)\<close> on a number;
  \<^item> \<open>function_to_string f\<close> is \<^verbatim>\<open>String(f)\<close> on a function;
  \<^item> \<open>to_upper_case s\<close> is \<^verbatim>\<open>s.toUpperCase()\<close>;
  \<^item> \<open>strict_equals a b\<close> is \<^verbatim>\<open>a === b\<close>;
  \<^item> \<open>array_includes xs v\<close> is \<^verbatim>\<open>xs.includes(v)\<close> on an array;
  \<^item> \<open>number_greater a b\<close> is \<^verbatim>\<open>Number(a) > Number(b)\<close> and \<open>number_less a b\<close> is
    \<^verbatim>\<open>Number(a) < Number(b)\<close>;
  \<^item> \<open>inherited k\<close> is what \<^verbatim>\<open>o[k]\<close> gives on a plain object that has no own property \<open>k\<close>:
    the property of that name on the prototype chain, \<open>undefined\<close> for most names.
\<close>

record js_runtime =
  num_sub :: "jsnum \<Rightarrow> jsnum \<Rightarrow> jsnum"
  num_to_string :: "jsnum \<Rightarrow> string"
  function_to_string :: "string \<Rightarrow> string"
  to_upper_case :: "string \<Rightarrow> string"
  strict_equals :: "jsval \<Rightarrow> jsval \<Rightarrow> bool"
  array_includes :: "jsval list \<Rightarrow> jsval \<Rightarrow> bool"
  number_greater :: "jsval \<Rightarrow> jsval \<Rightarrow> bool"
  number_less :: "jsval \<Rightarrow> jsval \<Rightarrow> bool"
  inherited :: "string \<Rightarrow> jsval"

text \<open>\<^verbatim>\<open>String(v)\<close>.\<close>

fun js_String :: "js_runtime \<Rightarrow> jsval \<Rightarrow> string" where
  "js_String rt JUndefined = ''undefined''"
| "js_String rt JNull = ''null''"
| "js_String rt (JBool b) = (if b then ''true'' else ''false'')"
| "js_String rt (JNum n) = num_to_string rt n"
| "js_String rt (JStr s) = s"
| "js_String rt (JRegExp src) = ''/'' @ src @ ''/''"
| "js_String rt JServerTimestamp = ''[object Object]''"
| "js_String rt (JFunction f) = function_to_string rt f"
| "js_String rt (JArr xs) =
     intercalate '',''
       (map (\<lambda>x. if x = JUndefined \<or> x = JNull then [] else js_String rt x) xs)"
| "js_String rt (JObj kvs) = ''[object Object]''"

text \<open>\<^verbatim>\<open>Object.keys(v)\<close> for a value that is not \<open>null\<close> or \<open>undefined\<close>.\<close>

fun object_keys :: "jsval \<Rightarrow> string list" where
  "object_keys (JObj kvs) = map fst kvs"
| "object_keys (JArr xs) = map (\<lambda>i. string_of_int (int i)) [0 ..< length xs]"
| "object_keys (JStr s) = map (\<lambda>i. string_of_int (int i)) [0 ..< length s]"
| "object_keys _ = []"

text \<open>\<^verbatim>\<open>s.charAt(0).toUpperCase() + s.slice(1)\<close>.\<close>

definition capitalize :: "js_runtime \<Rightarrow> string \<Rightarrow> string" where
  "capitalize rt s = to_upper_case rt (take 1 s) @ drop 1 s"

section \<open>Schemas\<close>

text \<open>The checks zod records on a string schema and on a number schema, in declaration
  order. Kinds the library does not look at are \<open>SOther\<close> and \<open>NOther\<close>.\<close>

datatype string_check =
    SMin jsnum
  | SMax jsnum
  | SEmail
  | SUrl
  | SUuid
  | SCuid
  | SRegex string
  | SStartsWith string
  | SEndsWith string
  | SOther string

datatype number_check =
    NMin jsnum bool
  | NMax jsnum bool
  | NInt
  | NMultipleOf jsnum
  | NFinite
  | NOther string

text \<open>
  A zod schema node. \<open>ZodDefault inner d\<close> carries the value its default function
  returns; \<open>ZodArray item minLength maxLength\<close> the optional length bounds; a
  \<open>ZodNativeEnum\<close> the enum object; \<open>ZodDiscriminatedUnion\<close> its options map;
  \<open>ZodOther typeName clsIsFile\<close> is any other kind.
\<close>

datatype zod =
    ZodDefault zod jsval
  | ZodOptional zod
  | ZodNullable zod
  | ZodEffects zod
  | ZodString "string_check list"
  | ZodNumber "number_check list"
  | ZodBoolean
  | ZodDate
  | ZodEnum "string list"
  | ZodNativeEnum "(string \<times> jsval) list"
  | ZodArray zod "jsnum option" "jsnum option"
  | ZodObject "(string \<times> zod) list"
  | ZodRecord zod
  | ZodUnion "zod list"
  | ZodDiscriminatedUnion "(jsval \<times> zod) list"
  | ZodBigInt
  | ZodOther string bool

fun typeName :: "zod \<Rightarrow> string" where
  "typeName (ZodDefault _ _) = ''ZodDefault''"
| "typeName (ZodOptional _) = ''ZodOptional''"
| "typeName (ZodNullable _) = ''ZodNullable''"
| "typeName (ZodEffects _) = ''ZodEffects''"
| "typeName (ZodString _) = ''ZodString''"
| "typeName (ZodNumber _) = ''ZodNumber''"
| "typeName ZodBoolean = ''ZodBoolean''"
| "typeName ZodDate = ''ZodDate''"
| "typeName (ZodEnum _) = ''ZodEnum''"
| "typeName (ZodNativeEnum _) = ''ZodNativeEnum''"
| "typeName (ZodArray _ _ _) = ''ZodArray''"
| "typeName (ZodObject _) = ''ZodObject''"
| "typeName (ZodRecord _) = ''ZodRecord''"
| "typeName (ZodUnion _) = ''ZodUnion''"
| "typeName (ZodDiscriminatedUnion _) = ''ZodDiscriminatedUnion''"
| "typeName ZodBigInt = ''ZodBigInt''"
| "typeName (ZodOther n _) = n"

section \<open>Field Mapper\<close>

datatype field_type =
    FText | FEmail | FPassword | FUrl | FTel | FNumber | FRange | FTextarea | FSelect
  | FRadio | FCheckbox | FFile | FDate | FDatetimeLocal | FTime | FStars | FArray
  | FObject | FRecord | FSwitch | FColor

text \<open>A \<^verbatim>\<open>Partial<FieldConfig>\<close> (and the rules object merged into it): the keys that
  are set, with their values.\<close>

type_synonym config = "string \<rightharpoonup> jsval"

definition uuid_pattern :: string where
  "uuid_pattern =
     ''^[0-9a-fA-F]{8}-[0-9a-fA-F]{4}-[0-9a-fA-F]{4}-[0-9a-fA-F]{4}-[0-9a-fA-F]{12}$''"

text \<open>The loop over a string schema's checks: \<open>email\<close>, \<open>url\<close> and a \<open>min\<close> of at least
  100 return from inside the loop.\<close>

fun string_checks :: "string_check list \<Rightarrow> config \<Rightarrow> field_type \<times> config" where
  "string_checks [] config = (FText, config)"
| "string_checks (SEmail # cs) config = (FEmail, config)"
| "string_checks (SUrl # cs) config = (FUrl, config)"
| "string_checks (SUuid # cs) config = string_checks cs (config(''pattern'' \<mapsto> JStr uuid_pattern))"
| "string_checks (SMin v # cs) config =
     (if num_ge v (Fin 100) then (FTextarea, config(''minLength'' \<mapsto> JNum v))
      else string_checks cs (config(''minLength'' \<mapsto> JNum v)))"
| "string_checks (SMax v # cs) config = string_checks cs (config(''maxLength'' \<mapsto> JNum v))"
| "string_checks (SRegex src # cs) config = string_checks cs (config(''pattern'' \<mapsto> JStr src))"
| "string_checks (_ # cs) config = string_checks cs config"

text \<open>The loop over a number schema's checks; the state is the config and the two
  locals \<^verbatim>\<open>minValue\<close> and \<^verbatim>\<open>maxValue\<close>.\<close>

fun number_checks ::
  "number_check list \<Rightarrow> config \<times> jsnum option \<times> jsnum option
     \<Rightarrow> config \<times> jsnum option \<times> jsnum option"
where
  "number_checks [] st = st"
| "number_checks (NMin v _ # cs) (config, minValue, maxValue) =
     number_checks cs (config(''min'' \<mapsto> JNum v), Some v, maxValue)"
| "number_checks (NMax v _ # cs) (config, minValue, maxValue) =
     number_checks cs (config(''max'' \<mapsto> JNum v), minValue, Some v)"
| "number_checks (NInt # cs) (config, minValue, maxValue) =
     number_checks cs (config(''step'' \<mapsto> JNum (Fin 1)), minValue, maxValue)"
| "number_checks (NMultipleOf v # cs) (config, minValue, maxValue) =
     number_checks cs (config(''step'' \<mapsto> JNum v), minValue, maxValue)"
| "number_checks (_ # cs) st = number_checks cs st"

definition option_of :: "string \<Rightarrow> jsval \<Rightarrow> jsval" where
  "option_of label v = JObj [(''label'', JStr label), (''value'', v)]"

fun mapZodTypeToFieldType :: "js_runtime \<Rightarrow> zod \<Rightarrow> string \<Rightarrow> field_type \<times> config" where
  "mapZodTypeToFieldType rt (ZodDefault innerType d) path =
     (let (t, config) = mapZodTypeToFieldType rt innerType path
      in (t, config(''defaultValue'' \<mapsto> d)))"
| "mapZodTypeToFieldType rt (ZodOptional inner) path =
     (let (t, config) = mapZodTypeToFieldType rt inner path
      in (t, config(''required'' \<mapsto> JBool False)))"
| "mapZodTypeToFieldType rt (ZodNullable inner) path =
     (let (t, config) = mapZodTypeToFieldType rt inner path
      in (t, config(''required'' \<mapsto> JBool False)))"
| "mapZodTypeToFieldType rt (ZodEffects schema) path = mapZodTypeToFieldType rt schema path"
| "mapZodTypeToFieldType rt (ZodString checks) path = string_checks checks Map.empty"
| "mapZodTypeToFieldType rt (ZodNumber checks) path =
     (case number_checks checks (Map.empty, None, None) of
        (config, Some minValue, Some maxValue) \<Rightarrow>
          if num_le (num_sub rt maxValue minValue) (Fin 10) then (FRange, config) else (FNumber, config)
      | (config, _, _) \<Rightarrow> (FNumber, config))"
| "mapZodTypeToFieldType rt ZodBoolean path = (FCheckbox, Map.empty)"
| "mapZodTypeToFieldType rt ZodDate path = (FDate, Map.empty)"
| "mapZodTypeToFieldType rt (ZodEnum vals) path =
     (let options = map (\<lambda>v. option_of (capitalize rt (js_String rt (JStr v))) (JStr v)) vals
      in if length options \<le> 4 then (FRadio, [''options'' \<mapsto> JArr options])
         else (FSelect, [''options'' \<mapsto> JArr options]))"
| "mapZodTypeToFieldType rt (ZodNativeEnum vals) path =
     (let enumValues = map snd vals;
          options = map (\<lambda>v. option_of (capitalize rt (js_String rt v)) v) enumValues
      in (FSelect, [''options'' \<mapsto> JArr options]))"
| "mapZodTypeToFieldType rt (ZodArray item minLength maxLength) path =
     (let config = Map.empty;
          config = (case minLength of Some v \<Rightarrow> config(''minItems'' \<mapsto> JNum v) | None \<Rightarrow> config);
          config = (case maxLength of Some v \<Rightarrow> config(''maxItems'' \<mapsto> JNum v) | None \<Rightarrow> config)
      in (FArray, config))"
| "mapZodTypeToFieldType rt (ZodObject shape) path = (FObject, Map.empty)"
| "mapZodTypeToFieldType rt (ZodRecord v) path = (FRecord, Map.empty)"
| "mapZodTypeToFieldType rt (ZodUnion opts) path =
     (let options = map (\<lambda>index. option_of (''Option '' @ string_of_int (int index + 1))
                                         (JNum (Fin (of_nat index))))
                        [0 ..< length opts]
      in (FRadio, [''options'' \<mapsto> JArr options]))"
| "mapZodTypeToFieldType rt (ZodDiscriminatedUnion optionsMap) path =
     (let options = map (\<lambda>key. option_of (capitalize rt (js_String rt key)) key) (map fst optionsMap)
      in (FSelect, [''options'' \<mapsto> JArr options]))"
| "mapZodTypeToFieldType rt (ZodOther tn clsIsFile) path =
     (if tn = ''ZodType'' \<and> clsIsFile then (FFile, Map.empty) else (FText, Map.empty))"
| "mapZodTypeToFieldType rt ZodBigInt path = (FNumber, Map.empty)"

section \<open>Validation rules and type information\<close>

fun string_rules :: "string_check list \<Rightarrow> config \<Rightarrow> config" where
  "string_rules [] rules = rules"
| "string_rules (SMin v # cs) rules = string_rules cs (rules(''minLength'' \<mapsto> JNum v))"
| "string_rules (SMax v # cs) rules = string_rules cs (rules(''maxLength'' \<mapsto> JNum v))"
| "string_rules (SEmail # cs) rules = string_rules cs (rules(''email'' \<mapsto> JBool True))"
| "string_rules (SUrl # cs) rules = string_rules cs (rules(''url'' \<mapsto> JBool True))"
| "string_rules (SRegex src # cs) rules = string_rules cs (rules(''pattern'' \<mapsto> JRegExp src))"
| "string_rules (SUuid # cs) rules = string_rules cs (rules(''uuid'' \<mapsto> JBool True))"
| "string_rules (SCuid # cs) rules = string_rules cs (rules(''cuid'' \<mapsto> JBool True))"
| "string_rules (SStartsWith v # cs) rules = string_rules cs (rules(''startsWith'' \<mapsto> JStr v))"
| "string_rules (SEndsWith v # cs) rules = string_rules cs (rules(''endsWith'' \<mapsto> JStr v))"
| "string_rules (SOther k # cs) rules = string_rules cs rules"

fun number_rules :: "number_check list \<Rightarrow> config \<Rightarrow> config" where
  "number_rules [] rules = rules"
| "number_rules (NMin v inclusive # cs) rules =
     number_rules cs (rules(''min'' \<mapsto> JNum v, ''minInclusive'' \<mapsto> JBool inclusive))"
| "number_rules (NMax v inclusive # cs) rules =
     number_rules cs (rules(''max'' \<mapsto> JNum v, ''maxInclusive'' \<mapsto> JBool inclusive))"
| "number_rules (NInt # cs) rules = number_rules cs (rules(''integer'' \<mapsto> JBool True))"
| "number_rules (NMultipleOf v # cs) rules = number_rules cs (rules(''multipleOf'' \<mapsto> JNum v))"
| "number_rules (NFinite # cs) rules = number_rules cs (rules(''finite'' \<mapsto> JBool True))"
| "number_rules (NOther k # cs) rules = number_rules cs rules"

text \<open>For a schema that is not a wrapper, the function falls through its three
  kind-specific blocks and ends by setting \<open>required\<close>.\<close>

fun extractValidationRules :: "zod \<Rightarrow> config" where
  "extractValidationRules (ZodDefault innerType d) = extractValidationRules innerType"
| "extractValidationRules (ZodOptional inner) =
     (extractValidationRules inner)(''required'' \<mapsto> JBool False)"
| "extractValidationRules (ZodNullable inner) =
     (extractValidationRules inner)(''required'' \<mapsto> JBool False)"
| "extractValidationRules (ZodEffects schema) = extractValidationRules schema"
| "extractValidationRules (ZodString checks) =
     (string_rules checks Map.empty)(''required'' \<mapsto> JBool True)"
| "extractValidationRules (ZodNumber checks) =
     (number_rules checks Map.empty)(''required'' \<mapsto> JBool True)"
| "extractValidationRules (ZodArray item minLength maxLength) =
     (let rules = Map.empty;
          rules = (case minLength of Some v \<Rightarrow> rules(''minItems'' \<mapsto> JNum v) | None \<Rightarrow> rules);
          rules = (case maxLength of Some v \<Rightarrow> rules(''maxItems'' \<mapsto> JNum v) | None \<Rightarrow> rules)
      in rules(''required'' \<mapsto> JBool True))"
| "extractValidationRules _ = [''required'' \<mapsto> JBool True]"

text \<open>\<^verbatim>\<open>ZodTypeInfo\<close>. The schema model carries no description, so that optional
  member is left out; \<open>constraints\<close> is always the empty object.\<close>

record ZodTypeInfo =
  ti_typeName :: string
  isOptional :: bool
  isNullable :: bool
  hasDefault :: bool
  ti_defaultValue :: jsval
  ti_options :: jsval

fun getZodTypeInfo :: "js_runtime \<Rightarrow> zod \<Rightarrow> ZodTypeInfo" where
  "getZodTypeInfo rt zodType =
     \<lparr> ti_typeName = typeName zodType,
       isOptional = (case zodType of ZodOptional _ \<Rightarrow> True | _ \<Rightarrow> False),
       isNullable = (case zodType of ZodNullable _ \<Rightarrow> True | _ \<Rightarrow> False),
       hasDefault = (case zodType of ZodDefault _ _ \<Rightarrow> True | _ \<Rightarrow> False),
       ti_defaultValue = (case zodType of ZodDefault _ d \<Rightarrow> d | _ \<Rightarrow> JUndefined),
       ti_options = (case zodType of
                       ZodEnum vals \<Rightarrow> JArr (map (\<lambda>v. option_of (js_String rt (JStr v)) (JStr v)) vals)
                     | _ \<Rightarrow> JUndefined) \<rparr>"

section \<open>Schema Analyzer\<close>

record FieldAnalysis =
  fa_name :: string
  fa_type :: field_type
  fa_zodType :: string
  fa_required :: bool
  fa_config :: config
  fa_defaultValue :: jsval

text \<open>A property read on a config: an absent key reads as \<open>undefined\<close>.\<close>

definition config_get :: "config \<Rightarrow> string \<Rightarrow> jsval" where
  "config_get c k = (case c k of None \<Rightarrow> JUndefined | Some v \<Rightarrow> v)"

definition analyzeField :: "js_runtime \<Rightarrow> string \<Rightarrow> zod \<Rightarrow> string \<Rightarrow> FieldAnalysis" where
  "analyzeField rt name zodType path =
     (let fieldPath = (if path \<noteq> [] then path @ ''.'' @ name else name);
          (t, config) = mapZodTypeToFieldType rt zodType fieldPath;
          validation = extractValidationRules zodType;
          typeInfo = getZodTypeInfo rt zodType
      in \<lparr> fa_name = name,
           fa_type = t,
           fa_zodType = typeName zodType,
           fa_required = (config_get validation ''required'' \<noteq> JBool False),
           fa_config = config ++ validation,
           fa_defaultValue = ti_defaultValue typeInfo \<rparr>)"

text \<open>The result is a \<^verbatim>\<open>Record<string, FieldAnalysis>\<close>, filled key by key in the order of
  the shape's properties; a schema that is not an object gives the empty record.\<close>

fun parseSchema :: "js_runtime \<Rightarrow> zod \<Rightarrow> string \<Rightarrow> (string \<times> FieldAnalysis) list" where
  "parseSchema rt (ZodObject shape) basePath =
     fold (\<lambda>(key, zodType) fields. AList.update key (analyzeField rt key zodType basePath) fields)
          shape []"
| "parseSchema rt _ basePath = []"

datatype complexity = Simple | Moderate | Complex

record SchemaAnalysis =
  sa_fields :: "FieldAnalysis list"
  hasArrays :: bool
  hasObjects :: bool
  hasConditionals :: bool
  sa_complexity :: complexity

definition analyzeSchema :: "js_runtime \<Rightarrow> zod \<Rightarrow> SchemaAnalysis" where
  "analyzeSchema rt schema =
     (let fields = map snd (parseSchema rt schema []);
          hasArrays = (\<exists>field \<in> set fields. fa_type field = FArray);
          hasObjects = (\<exists>field \<in> set fields. fa_type field = FObject);
          hasConditionals = (\<exists>field \<in> set fields. truthy (config_get (fa_config field) ''showWhen''));
          complexity = Simple;
          complexity = (if hasArrays \<or> hasObjects \<or> length fields > 10 then Moderate else complexity);
          complexity =
            (if hasConditionals \<or> length fields > 20 \<or>
                (\<exists>field \<in> set fields.
                    fa_type field = FObject \<and>
                    truthy (config_get (fa_config field) ''fields'') \<and>
                    length (object_keys (config_get (fa_config field) ''fields'')) > 5)
             then Complex else complexity)
      in \<lparr> sa_fields = fields,
           hasArrays = hasArrays,
           hasObjects = hasObjects,
           hasConditionals = hasConditionals,
           sa_complexity = complexity \<rparr>)"

section \<open>Default Value Synthesizer\<close>

text \<open>The result object is filled key by key; a property whose schema is none of the six
  kinds tested writes nothing.\<close>

fun generateDefaultValues :: "zod \<Rightarrow> jsobj" where
  "generateDefaultValues (ZodObject shape) =
     fold (\<lambda>(key, zodType) defaults.
             case zodType of
               ZodDefault innerType d \<Rightarrow> AList.update key d defaults
             | ZodArray item mn mx \<Rightarrow> AList.update key (JArr []) defaults
             | ZodObject s \<Rightarrow> AList.update key (JObj (generateDefaultValues zodType)) defaults
             | ZodBoolean \<Rightarrow> AList.update key (JBool False) defaults
             | ZodNumber checks \<Rightarrow> AList.update key (JNum (Fin 0)) defaults
             | ZodString checks \<Rightarrow> AList.update key (JStr []) defaults
             | _ \<Rightarrow> defaults)
          shape []"
| "generateDefaultValues _ = []"

section \<open>Validator\<close>

text \<open>An exception is a value; a computation that may throw returns \<open>js_error + 'a\<close>,
  and \<open>try_catch\<close> is \<^verbatim>\<open>try { ... } catch (error) { ... }\<close>.\<close>

datatype js_error = Error string

definition try_catch :: "js_error + 'a \<Rightarrow> (js_error \<Rightarrow> js_error + 'a) \<Rightarrow> js_error + 'a" where
  "try_catch body handler = (case body of Inl e \<Rightarrow> handler e | Inr v \<Rightarrow> Inr v)"

text \<open>What zod's \<^verbatim>\<open>safeParse\<close> returns: the parsed data, or the list of issues, each
  with its code, message and path; a path segment is a property name or an array index.\<close>

datatype path_segment = PKey string | PIndex nat

record ZodIssue =
  issue_code :: string
  issue_message :: string
  issue_path :: "path_segment list"

datatype SafeParseReturn = ParseSuccess jsval | ParseFailure "ZodIssue list"

record ValidationError =
  ve_field :: string
  ve_message :: string
  ve_code :: string
  ve_path :: "path_segment list"

record ValidationResult =
  vr_success :: bool
  vr_data :: jsval
  vr_errors :: "ValidationError list"

fun segment_string :: "path_segment \<Rightarrow> string" where
  "segment_string (PKey k) = k"
| "segment_string (PIndex i) = string_of_int (int i)"

text \<open>\<^verbatim>\<open>path.join('.')\<close>.\<close>

definition join_path :: "path_segment list \<Rightarrow> string" where
  "join_path p = intercalate ''.'' (map segment_string p)"

text \<open>The schema's own \<^verbatim>\<open>safeParse\<close> belongs to zod; it is a parameter, and it may
  throw.\<close>

definition validateWithSchema ::
  "(zod \<Rightarrow> jsval \<Rightarrow> js_error + SafeParseReturn) \<Rightarrow> zod \<Rightarrow> jsval \<Rightarrow> js_error + ValidationResult"
where
  "validateWithSchema safeParse schema d =
     try_catch
       (case safeParse schema d of
          Inl e \<Rightarrow> Inl e
        | Inr (ParseSuccess parsed) \<Rightarrow>
            Inr \<lparr> vr_success = True, vr_data = parsed, vr_errors = [] \<rparr>
        | Inr (ParseFailure issues) \<Rightarrow>
            Inr \<lparr> vr_success = False, vr_data = JUndefined,
                  vr_errors = map (\<lambda>err. \<lparr> ve_field = join_path (issue_path err),
                                        ve_message = issue_message err,
                                        ve_code = issue_code err,
                                        ve_path = issue_path err \<rparr>) issues \<rparr>)
       (\<lambda>error. Inr \<lparr> vr_success = False, vr_data = JUndefined,
                       vr_errors = [\<lparr> ve_field = ''root'', ve_message = ''Schema validation failed'',
                                   ve_code = ''custom'', ve_path = [] \<rparr>] \<rparr>)"

section \<open>Conditional Visibility Evaluator\<close>

text \<open>\<^verbatim>\<open>s.includes(t)\<close> on strings.\<close>

fun string_includes :: "string \<Rightarrow> string \<Rightarrow> bool" where
  "string_includes [] t = (t = [])"
| "string_includes (c # s) t = (take (length t) (c # s) = t \<or> string_includes s t)"

text \<open>A read of one of the properties \<open>field\<close>, \<open>value\<close>, \<open>operator\<close> of a rule: only an
  object has them.\<close>

fun js_get :: "jsval \<Rightarrow> string \<Rightarrow> jsval" where
  "js_get (JObj kvs) k = obj_get kvs k"
| "js_get _ k = JUndefined"

text \<open>The body of the loop over the fields: the value stored for one field. The form
  values are a plain object, and the dependent field's name is computed at run time: the
  read takes the own property of that name if there is one, and else what the prototype
  chain gives.\<close>

definition field_visible :: "js_runtime \<Rightarrow> FieldAnalysis \<Rightarrow> jsobj \<Rightarrow> bool" where
  "field_visible rt fld formValues =
     (let showWhen = config_get (fa_config fld) ''showWhen''
      in if \<not> truthy showWhen then True
         else
           let dependentField = js_get showWhen ''field'';
               expectedValue = js_get showWhen ''value'';
               operator = (if js_get showWhen ''operator'' = JUndefined then JStr ''equals''
                           else js_get showWhen ''operator'');
               key = js_String rt dependentField;
               actualValue = (case map_of formValues key of
                                Some v \<Rightarrow> v
                              | None \<Rightarrow> inherited rt key)
           in if operator = JStr ''equals'' then strict_equals rt actualValue expectedValue
              else if operator = JStr ''not-equals'' then \<not> strict_equals rt actualValue expectedValue
              else if operator = JStr ''contains'' then
                (case actualValue of
                   JArr xs \<Rightarrow> array_includes rt xs expectedValue
                 | _ \<Rightarrow> string_includes (js_String rt actualValue) (js_String rt expectedValue))
              else if operator = JStr ''greater-than'' then number_greater rt actualValue expectedValue
              else if operator = JStr ''less-than'' then number_less rt actualValue expectedValue
              else True)"

definition useConditionalFields ::
  "js_runtime \<Rightarrow> (string \<times> FieldAnalysis) list \<Rightarrow> jsobj \<Rightarrow> (string \<times> bool) list"
where
  "useConditionalFields rt flds formValues =
     fold (\<lambda>(name, fld) visibleFields.
             AList.update name (field_visible rt fld formValues) visibleFields)
          flds []"

section \<open>Document Sync Engine\<close>

datatype document_reference = DocumentReference (ref_path: string) (ref_id: string)

text \<open>
  The configuration of \<^verbatim>\<open>useFirestoreForm\<close>, as far as a save reads it. \<open>user_uid\<close> is
  \<^verbatim>\<open>user?.uid\<close>; the hooks \<open>transformBeforeSave\<close> and \<open>onSuccess\<close> may throw; of \<open>onError\<close>
  only its presence matters.
\<close>

record FirestoreFormConfig =
  collectionName :: "string option"
  documentId :: "string option"
  documentRef :: "document_reference option"
  user_uid :: "string option"
  includeMetadata :: bool
  transformBeforeSave :: "(jsval \<Rightarrow> js_error + jsval) option"
  onSuccess :: "(jsval \<Rightarrow> js_error option) option"
  onError :: bool

text \<open>The hook's state variables.\<close>

record hook_state =
  loading :: bool
  saving :: bool
  error :: "js_error option"
  currentDocId :: "string option"

text \<open>Truthiness of an optional string: absent and empty are falsy.\<close>

fun truthy_string :: "string option \<Rightarrow> bool" where
  "truthy_string None = False"
| "truthy_string (Some s) = (s \<noteq> [])"

definition initial_state :: "FirestoreFormConfig \<Rightarrow> hook_state" where
  "initial_state cfg =
     \<lparr> loading = (truthy_string (documentId cfg) \<or> documentRef cfg \<noteq> None),
       saving = False,
       error = None,
       currentDocId = (if truthy_string (documentId cfg) then documentId cfg else None) \<rparr>"

text \<open>
  The remote store is Firestore's: its three write calls are parameters, each answering
  with a rejection or with success (\<open>addDoc\<close> with the reference of the document it
  created). The calls a save makes are recorded as events, with the callbacks it runs.
\<close>

record firestore =
  setDoc :: "document_reference \<Rightarrow> jsval \<Rightarrow> bool \<Rightarrow> js_error option"
  updateDoc :: "document_reference \<Rightarrow> jsval \<Rightarrow> js_error option"
  addDoc :: "string \<Rightarrow> jsval \<Rightarrow> js_error + document_reference"

datatype event =
    SetDoc document_reference jsval bool
  | UpdateDoc document_reference jsval
  | AddDoc string jsval
  | OnSuccess jsval
  | OnError js_error

text \<open>\<^verbatim>\<open>{ ...v }\<close>: the own enumerable properties of a value.\<close>

fun spread :: "jsval \<Rightarrow> jsobj" where
  "spread (JObj kvs) = kvs"
| "spread (JArr xs) = zip (map (\<lambda>i. string_of_int (int i)) [0 ..< length xs]) xs"
| "spread (JStr s) = zip (map (\<lambda>i. string_of_int (int i)) [0 ..< length s]) (map (\<lambda>c. JStr [c]) s)"
| "spread _ = []"

text \<open>\<^verbatim>\<open>user?.uid || null\<close>.\<close>

definition uid_or_null :: "string option \<Rightarrow> jsval" where
  "uid_or_null u = (if truthy_string u then JStr (the u) else JNull)"

text \<open>The payload as assembled before the transform hook: the form data, and the
  metadata when it is included.\<close>

definition assemble :: "FirestoreFormConfig \<Rightarrow> hook_state \<Rightarrow> jsval \<Rightarrow> jsval" where
  "assemble cfg st formData =
     (let dataToSave = spread formData
      in if includeMetadata cfg then
           JObj (AList.update ''_metadata''
                  (JObj ([(''updatedAt'', JServerTimestamp),
                          (''updatedBy'', uid_or_null (user_uid cfg))] @
                         (if truthy_string (currentDocId st) then []
                          else [(''createdAt'', JServerTimestamp),
                                (''createdBy'', uid_or_null (user_uid cfg))])))
                  dataToSave)
         else JObj dataToSave)"

text \<open>The write: into the document reference if one is configured, else an update of the
  bound document, else a create in the collection; with neither collection nor reference
  the save throws.\<close>

definition no_target :: js_error where
  "no_target = Error (''FirestoreForm: No collection name or document reference provided. '' @
                      ''Please provide either a \"collection\" prop or a \"documentRef\" prop.'')"

definition write_doc ::
  "firestore \<Rightarrow> FirestoreFormConfig \<Rightarrow> hook_state \<Rightarrow> jsval
     \<Rightarrow> (js_error + document_reference) \<times> hook_state \<times> event list"
where
  "write_doc fs cfg st dataToSave =
     (case documentRef cfg of
        Some r \<Rightarrow>
          (case setDoc fs r dataToSave True of
             Some e \<Rightarrow> (Inl e, st, [SetDoc r dataToSave True])
           | None \<Rightarrow> (Inr r, st, [SetDoc r dataToSave True]))
      | None \<Rightarrow>
          if truthy_string (collectionName cfg) \<and> truthy_string (currentDocId st) then
            (let docRef = DocumentReference
                            (the (collectionName cfg) @ ''/'' @ the (currentDocId st))
                            (the (currentDocId st))
             in case updateDoc fs docRef dataToSave of
                  Some e \<Rightarrow> (Inl e, st, [UpdateDoc docRef dataToSave])
                | None \<Rightarrow> (Inr docRef, st, [UpdateDoc docRef dataToSave]))
          else if truthy_string (collectionName cfg) then
            (case addDoc fs (the (collectionName cfg)) dataToSave of
               Inl e \<Rightarrow> (Inl e, st, [AddDoc (the (collectionName cfg)) dataToSave])
             | Inr docRef \<Rightarrow>
                 (Inr docRef, st\<lparr>currentDocId := Some (ref_id docRef)\<rparr>,
                  [AddDoc (the (collectionName cfg)) dataToSave]))
          else (Inl no_target, st, []))"

text \<open>The \<^verbatim>\<open>try\<close> block of \<^verbatim>\<open>saveToFirestore\<close>; \<open>d\<close> is the optional argument
  (\<open>undefined\<close> when omitted) and \<open>formValues\<close> what \<^verbatim>\<open>form.getValues()\<close> returns.\<close>

definition save_try ::
  "firestore \<Rightarrow> FirestoreFormConfig \<Rightarrow> hook_state \<Rightarrow> jsval \<Rightarrow> jsval
     \<Rightarrow> (js_error + document_reference) \<times> hook_state \<times> event list"
where
  "save_try fs cfg st d formValues =
     (let st = st\<lparr>saving := True, error := None\<rparr>;
          formData = (if truthy d then d else formValues);
          dataToSave = assemble cfg st formData
      in case (case transformBeforeSave cfg of None \<Rightarrow> Inr dataToSave | Some f \<Rightarrow> f dataToSave) of
           Inl e \<Rightarrow> (Inl e, st, [])
         | Inr dataToSave \<Rightarrow>
             (case write_doc fs cfg st dataToSave of
                (Inl e, st, evs) \<Rightarrow> (Inl e, st, evs)
              | (Inr docRef, st, evs) \<Rightarrow>
                  (case onSuccess cfg of
                     None \<Rightarrow> (Inr docRef, st\<lparr>saving := False\<rparr>, evs)
                   | Some f \<Rightarrow>
                       (case f formData of
                          Some e \<Rightarrow> (Inl e, st, evs @ [OnSuccess formData])
                        | None \<Rightarrow> (Inr docRef, st\<lparr>saving := False\<rparr>, evs @ [OnSuccess formData])))))"

text \<open>The whole function: the \<^verbatim>\<open>catch\<close> block records the error, clears \<open>saving\<close>, calls
  \<open>onError\<close> and throws the error again.\<close>

definition saveToFirestore ::
  "firestore \<Rightarrow> FirestoreFormConfig \<Rightarrow> hook_state \<Rightarrow> jsval \<Rightarrow> jsval
     \<Rightarrow> (js_error + document_reference) \<times> hook_state \<times> event list"
where
  "saveToFirestore fs cfg st d formValues =
     (case save_try fs cfg st d formValues of
        (Inl err, st, evs) \<Rightarrow>
          (Inl err, st\<lparr>error := Some err, saving := False\<rparr>,
           evs @ (if onError cfg then [OnError err] else []))
      | (Inr docRef, st, evs) \<Rightarrow> (Inr docRef, st, evs))"

section \<open>Notions used to state the properties\<close>

text \<open>The value of the last \<open>min\<close> check of a number schema, of its last \<open>max\<close> check, and
  the step its last \<open>int\<close> or \<open>multipleOf\<close> check stands for.\<close>

fun declared_min :: "number_check list \<Rightarrow> jsnum option" where
  "declared_min [] = None"
| "declared_min (c # cs) =
     (case declared_min cs of
        Some v \<Rightarrow> Some v
      | None \<Rightarrow> (case c of NMin v _ \<Rightarrow> Some v | _ \<Rightarrow> None))"

fun declared_max :: "number_check list \<Rightarrow> jsnum option" where
  "declared_max [] = None"
| "declared_max (c # cs) =
     (case declared_max cs of
        Some v \<Rightarrow> Some v
      | None \<Rightarrow> (case c of NMax v _ \<Rightarrow> Some v | _ \<Rightarrow> None))"

fun declared_step :: "number_check list \<Rightarrow> jsnum option" where
  "declared_step [] = None"
| "declared_step (c # cs) =
     (case declared_step cs of
        Some v \<Rightarrow> Some v
      | None \<Rightarrow> (case c of NInt \<Rightarrow> Some (Fin 1) | NMultipleOf v \<Rightarrow> Some v | _ \<Rightarrow> None))"

text \<open>The value of the last \<open>max\<close> check of a string schema.\<close>

fun declared_maxLength :: "string_check list \<Rightarrow> jsnum option" where
  "declared_maxLength [] = None"
| "declared_maxLength (c # cs) =
     (case declared_maxLength cs of
        Some v \<Rightarrow> Some v
      | None \<Rightarrow> (case c of SMax v \<Rightarrow> Some v | _ \<Rightarrow> None))"





subsection \<open>Sample inputs\<close>

text \<open>
  A runtime for the examples. It does what the language does on the values the examples
  use: integers below \<open>10\<^sup>2\<^sup>1\<close>, on which subtraction is exact and \<^verbatim>\<open>String\<close> gives the
  decimal digits; ASCII strings; primitive values compared with one another, every array,
  object and function being a reference of its own; and property names that the
  prototype chain does not have.
\<close>

fun exact_sub :: "jsnum \<Rightarrow> jsnum \<Rightarrow> jsnum" where
  "exact_sub NaN b = NaN"
| "exact_sub a NaN = NaN"
| "exact_sub (Fin x) (Fin y) = Fin (x - y)"
| "exact_sub PosInf PosInf = NaN"
| "exact_sub NegInf NegInf = NaN"
| "exact_sub PosInf b = PosInf"
| "exact_sub NegInf b = NegInf"
| "exact_sub (Fin x) PosInf = NegInf"
| "exact_sub (Fin x) NegInf = PosInf"

fun integer_string :: "jsnum \<Rightarrow> string" where
  "integer_string (Fin q) = string_of_int \<lfloor>q\<rfloor>"
| "integer_string PosInf = ''Infinity''"
| "integer_string NegInf = ''-Infinity''"
| "integer_string NaN = ''NaN''"

definition ascii_upper :: "string \<Rightarrow> string" where
  "ascii_upper s =
     map (\<lambda>c. if (97::nat) \<le> of_char c \<and> of_char c \<le> (122::nat)
               then char_of (of_char c - (32::nat)) else c) s"

fun primitive :: "jsval \<Rightarrow> bool" where
  "primitive JUndefined = True"
| "primitive JNull = True"
| "primitive (JBool b) = True"
| "primitive (JNum n) = True"
| "primitive (JStr s) = True"
| "primitive _ = False"

fun sample_number :: "jsval \<Rightarrow> jsnum" where
  "sample_number (JNum n) = n"
| "sample_number (JBool b) = (if b then Fin 1 else Fin 0)"
| "sample_number JNull = Fin 0"
| "sample_number _ = NaN"

definition sample_runtime :: js_runtime where
  "sample_runtime =
     \<lparr> num_sub = exact_sub,
       num_to_string = integer_string,
       function_to_string = (\<lambda>f. ''function '' @ f @ ''() { [native code] }''),
       to_upper_case = ascii_upper,
       strict_equals = (\<lambda>a b. primitive a \<and> a = b \<and> a \<noteq> JNum NaN),
       array_includes = (\<lambda>xs v. primitive v \<and> v \<in> set xs),
       number_greater = (\<lambda>a b. num_le (sample_number b) (sample_number a) \<and>
                                 \<not> num_le (sample_number a) (sample_number b)),
       number_less = (\<lambda>a b. num_le (sample_number a) (sample_number b) \<and>
                              \<not> num_le (sample_number b) (sample_number a)),
       inherited = (\<lambda>k. JUndefined) \<rparr>"

text \<open>An object schema whose only property is an object of six strings.\<close>

definition nested_address_schema :: zod where
  "nested_address_schema =
     ZodObject [(''address'',
        ZodObject [(''street'', ZodString []), (''city'', ZodString []), (''state'', ZodString []),
                   (''zip'', ZodString []), (''country'', ZodString []), (''unit'', ZodString [])])]"

text \<open>A store that accepts every write and names every created document alike, and one
  that rejects every write; a form bound to a collection, and one bound to a document
  reference, both with a signed-in user; and a hook that keeps the title only.\<close>

definition store_ok :: firestore where
  "store_ok =
     \<lparr> setDoc = (\<lambda>r p m. None),
       updateDoc = (\<lambda>r p. None),
       addDoc = (\<lambda>c p. Inr (DocumentReference (c @ ''/test-doc-id'') ''test-doc-id'')) \<rparr>"


definition users_config :: FirestoreFormConfig where
  "users_config =
     \<lparr> collectionName = Some ''users'', documentId = None, documentRef = None,
       user_uid = Some ''user-123'', includeMetadata = True,
       transformBeforeSave = None, onSuccess = None, onError = False \<rparr>"






text \<open>Two fields: one without a visibility rule, one whose rule has the operator
  \<open>matches\<close>.\<close>

definition contact_fields :: "(string \<times> FieldAnalysis) list" where
  "contact_fields =
     [(''contactPreference'',
         \<lparr> fa_name = ''contactPreference'', fa_type = FText, fa_zodType = ''ZodString'',
           fa_required = True, fa_config = [''required'' \<mapsto> JBool True],
           fa_defaultValue = JUndefined \<rparr>),
      (''phoneNumber'',
         \<lparr> fa_name = ''phoneNumber'', fa_type = FText, fa_zodType = ''ZodString'',
           fa_required = True,
           fa_config = [''required'' \<mapsto> JBool True,
                        ''showWhen'' \<mapsto> JObj [(''field'', JStr ''contactPreference''),
                                                (''value'', JStr ''phone''),
                                                (''operator'', JStr ''matches'')]],
           fa_defaultValue = JUndefined \<rparr>)]"

section \<open>Properties of the Field Mapper\<close>

subsection \<open>Long strings\<close>

text \<open>Checks that neither return nor reach the threshold only extend the config, so a
  prefix of such checks can be run first.\<close>

lemma string_checks_append:
  "SEmail \<notin> set pre \<Longrightarrow> SUrl \<notin> set pre \<Longrightarrow>
   (\<forall>w. SMin w \<in> set pre \<longrightarrow> \<not> num_ge w (Fin 100)) \<Longrightarrow>
     string_checks (pre @ rest) config = string_checks rest (snd (string_checks pre config))"
proof (induction pre arbitrary: config)
  case Nil
  then show ?case by simp
next
  case (Cons c pre)
  then show ?case by (cases c) auto
qed

text \<open>
  C2, as the code has it. Take a string schema whose first \<open>min\<close> check with a threshold
  of at least 100 has value \<open>v\<close>, with the checks \<open>pre\<close> before it (none of them \<open>email\<close>
  or \<open>url\<close>) and the checks \<open>post\<close> after it. The Field Mapper returns \<open>textarea\<close>, and
  the config it returns is the one collected from \<open>pre\<close> with \<open>minLength = v\<close>: the loop
  returns at that check, so nothing declared after it reaches the mapper's config.
\<close>

theorem textarea_config_stops_at_min:
  assumes "num_ge v (Fin 100)" and "SEmail \<notin> set pre" and "SUrl \<notin> set pre"
    and "\<forall>w. SMin w \<in> set pre \<longrightarrow> \<not> num_ge w (Fin 100)"
  shows "mapZodTypeToFieldType rt (ZodString (pre @ SMin v # post)) path =
           (FTextarea,
            (snd (mapZodTypeToFieldType rt (ZodString pre) path))(''minLength'' \<mapsto> JNum v))"
  using assms string_checks_append [of pre "SMin v # post" Map.empty] by simp

text \<open>The theorem at the schema \<^verbatim>\<open>z.string().max(500).min(3).min(120).max(400).regex(/a+/)\<close>.\<close>

theorem textarea_config_stops_at_min_witness:
  "mapZodTypeToFieldType sample_runtime
      (ZodString ([SMax (Fin 500), SMin (Fin 3)] @ SMin (Fin 120) #
                  [SMax (Fin 400), SRegex ''a+''])) [] =
     (FTextarea, [''maxLength'' \<mapsto> JNum (Fin 500), ''minLength'' \<mapsto> JNum (Fin 120)])"
  using textarea_config_stops_at_min
          [of "Fin 120" "[SMax (Fin 500), SMin (Fin 3)]" sample_runtime
              "[SMax (Fin 400), SRegex ''a+'']" "[]"]
  by (simp add: num_ge_def)

text \<open>C2 as stated fails: for \<^verbatim>\<open>z.string().min(100).max(500).regex(/[a-z]+/)\<close> the mapper
  returns \<open>textarea\<close> with a config that holds \<open>minLength\<close> only; the later \<open>max\<close> and
  \<open>regex\<close> are not merged into it.\<close>

theorem later_constraints_dropped_counterexample:
  "mapZodTypeToFieldType sample_runtime
      (ZodString [SMin (Fin 100), SMax (Fin 500), SRegex ''[a-z]+'']) [] =
     (FTextarea, [''minLength'' \<mapsto> JNum (Fin 100)]) \<and>
   snd (mapZodTypeToFieldType sample_runtime
          (ZodString [SMin (Fin 100), SMax (Fin 500), SRegex ''[a-z]+'']) []) ''maxLength''
     = None \<and>
   snd (mapZodTypeToFieldType sample_runtime
          (ZodString [SMin (Fin 100), SMax (Fin 500), SRegex ''[a-z]+'']) []) ''pattern''
     = None"
  by (simp add: num_ge_def)

text \<open>The field definition still gets the later constraints: the rule extraction runs
  over all the checks, and its rules are merged over the mapper's config. So for
  \<^verbatim>\<open>z.string().min(100).max(500)\<close> the field is a \<open>textarea\<close> whose config has
  \<open>maxLength = 500\<close>.\<close>

lemma string_rules_maxLength:
  "string_rules cs rules ''maxLength'' =
     (case declared_maxLength cs of Some m \<Rightarrow> Some (JNum m) | None \<Rightarrow> rules ''maxLength'')"
proof (induction cs arbitrary: rules)
  case Nil
  show ?case by simp
next
  case (Cons c cs)
  show ?case
    by (cases c) (simp_all add: Cons.IH split: option.splits)
qed

lemma later_max_reaches_field_config:
  "declared_maxLength cs = Some m \<Longrightarrow>
     fa_config (analyzeField rt n (ZodString cs) p) ''maxLength'' = Some (JNum m)"
  by (simp add: analyzeField_def Let_def map_add_def string_rules_maxLength split: prod.splits)

lemma long_text_field_keeps_max:
  "fa_type (analyzeField rt ''bio'' (ZodString [SMin (Fin 100), SMax (Fin 500)]) []) = FTextarea \<and>
   fa_config (analyzeField rt ''bio'' (ZodString [SMin (Fin 100), SMax (Fin 500)]) []) ''maxLength''
     = Some (JNum (Fin 500))"
  by (simp add: analyzeField_def Let_def map_add_def num_ge_def)

subsection \<open>Numbers\<close>

text \<open>What the loop over a number schema's checks leaves behind, from any starting
  state: each of \<open>min\<close>, \<open>max\<close> and \<open>step\<close> is decided by the last check that sets it.\<close>

lemma number_checks_collects:
  "number_checks cs (config, mn, mx) =
     (\<lambda>k. if k = ''min'' then (case declared_min cs of Some v \<Rightarrow> Some (JNum v) | None \<Rightarrow> config k)
          else if k = ''max'' then (case declared_max cs of Some v \<Rightarrow> Some (JNum v) | None \<Rightarrow> config k)
          else if k = ''step'' then (case declared_step cs of Some v \<Rightarrow> Some (JNum v) | None \<Rightarrow> config k)
          else config k,
      case declared_min cs of Some v \<Rightarrow> Some v | None \<Rightarrow> mn,
      case declared_max cs of Some v \<Rightarrow> Some v | None \<Rightarrow> mx)"
proof (induction cs arbitrary: config mn mx)
  case Nil
  show ?case by (simp add: fun_eq_iff)
next
  case (Cons c cs)
  show ?case
    by (cases c) (auto simp: Cons.IH fun_eq_iff split: option.splits)
qed

text \<open>
  C5, as the code has it. For every number schema, whatever its bounds are (integers,
  fractions, infinities), let \<open>a\<close> be the value of its last \<open>min\<close> check and \<open>b\<close> that of its
  last \<open>max\<close> check. The Field Mapper returns \<open>range\<close> when both are declared and
  \<open>b - a <= 10\<close>, and \<open>number\<close> otherwise, where \<open>b - a\<close> is the difference as the language
  computes it on numbers, rounding included; \<open>config.min\<close> is \<open>a\<close> and \<open>config.max\<close> is \<open>b\<close>
  whenever they are declared. \<open>config.step\<close> is decided by the last declared of the
  \<open>int\<close> and \<open>multipleOf\<close> checks: 1 for \<open>int\<close>, its value for \<open>multipleOf\<close>. So a
  \<open>multipleOf\<close> overrides an \<open>int\<close> declared before it, and an \<open>int\<close> declared after a
  \<open>multipleOf\<close> sets the step to 1.
\<close>

theorem number_range_by_last_declared:
  "fst (mapZodTypeToFieldType rt (ZodNumber cs) path) =
     (case (declared_min cs, declared_max cs) of
        (Some a, Some b) \<Rightarrow> if num_le (num_sub rt b a) (Fin 10) then FRange else FNumber
      | _ \<Rightarrow> FNumber) \<and>
   snd (mapZodTypeToFieldType rt (ZodNumber cs) path) ''min''
     = map_option JNum (declared_min cs) \<and>
   snd (mapZodTypeToFieldType rt (ZodNumber cs) path) ''max''
     = map_option JNum (declared_max cs) \<and>
   snd (mapZodTypeToFieldType rt (ZodNumber cs) path) ''step''
     = map_option JNum (declared_step cs)"
  by (simp add: number_checks_collects split: option.splits)

text \<open>The theorem at \<^verbatim>\<open>z.number().int().min(1).max(5).multipleOf(2)\<close>: a range from 1 to 5
  with step 2.\<close>

theorem number_range_by_last_declared_witness:
  "fst (mapZodTypeToFieldType sample_runtime
          (ZodNumber [NInt, NMin (Fin 1) True, NMax (Fin 5) True, NMultipleOf (Fin 2)]) [])
     = FRange \<and>
   snd (mapZodTypeToFieldType sample_runtime
          (ZodNumber [NInt, NMin (Fin 1) True, NMax (Fin 5) True, NMultipleOf (Fin 2)]) []) ''min''
     = Some (JNum (Fin 1)) \<and>
   snd (mapZodTypeToFieldType sample_runtime
          (ZodNumber [NInt, NMin (Fin 1) True, NMax (Fin 5) True, NMultipleOf (Fin 2)]) []) ''max''
     = Some (JNum (Fin 5)) \<and>
   snd (mapZodTypeToFieldType sample_runtime
          (ZodNumber [NInt, NMin (Fin 1) True, NMax (Fin 5) True, NMultipleOf (Fin 2)]) []) ''step''
     = Some (JNum (Fin 2))"
  using number_range_by_last_declared
          [of sample_runtime "[NInt, NMin (Fin 1) True, NMax (Fin 5) True, NMultipleOf (Fin 2)]" "[]"]
  by (simp add: sample_runtime_def)

text \<open>C5 as stated fails: for \<^verbatim>\<open>z.number().multipleOf(5).int()\<close> the step is 1, not the
  value of the \<open>multipleOf\<close> check.\<close>

theorem multipleOf_before_int_counterexample:
  "snd (mapZodTypeToFieldType sample_runtime (ZodNumber [NMultipleOf (Fin 5), NInt]) []) ''step''
     = Some (JNum (Fin 1)) \<and>
   snd (mapZodTypeToFieldType sample_runtime (ZodNumber [NMultipleOf (Fin 5), NInt]) []) ''step''
     \<noteq> Some (JNum (Fin 5))"
  by simp

text \<open>The widget follows the difference the language computes, not the exact one. The
  bounds \<^verbatim>\<open>min(-1e-20).max(10)\<close> differ by more than 10, but the subtraction rounds to 10
  and the widget is a \<open>range\<close>; the bounds \<^verbatim>\<open>min(6.1).max(16.1)\<close> differ by 10, but the
  subtraction gives \<^verbatim>\<open>10.000000000000002\<close> and the widget is a \<open>number\<close>.\<close>

lemma rounded_difference_decides:
  "num_sub rt b a = Fin d \<Longrightarrow>
     fst (mapZodTypeToFieldType rt (ZodNumber [NMin a True, NMax b True]) path) =
       (if d \<le> 10 then FRange else FNumber)"
  by simp

subsection \<open>Enumerations\<close>

text \<open>
  C6. For every enum schema over a fixed list of literal values, the Field Mapper builds
  the option list in the order of the values; each option is an object with the two
  properties \<open>label\<close> and \<open>value\<close>, the label being the value capitalised (its first
  character, upper-cased by the language, followed by the rest of the value unchanged)
  and the value being the raw value. It returns \<open>radio\<close> when there are at most four
  options and \<open>select\<close> when there are more.
\<close>

theorem enum_radio_or_select:
  "mapZodTypeToFieldType rt (ZodEnum vals) path =
     (if length vals \<le> 4 then FRadio else FSelect,
      [''options'' \<mapsto>
         JArr (map (\<lambda>v. JObj [(''label'', JStr (to_upper_case rt (take 1 v) @ drop 1 v)),
                              (''value'', JStr v)]) vals)])"
  by (simp add: option_of_def capitalize_def)

text \<open>
  C9. For every native-enum schema the Field Mapper returns \<open>select\<close>, whatever the
  number of enum values; the rule that at most four options give \<open>radio\<close> is applied to
  literal enums only.
\<close>

theorem native_enum_select:
  "mapZodTypeToFieldType rt (ZodNativeEnum vals) path =
     (FSelect,
      [''options'' \<mapsto>
         JArr (map (\<lambda>v. option_of (capitalize rt (js_String rt v)) v) (map snd vals))])"
  by simp

section \<open>Properties of the Schema Analyzer\<close>

text \<open>Neither the mapper nor the rule extraction ever sets the keys \<open>showWhen\<close> and
  \<open>fields\<close>, so no field definition that \<open>parseSchema\<close> produces carries them.\<close>

lemma string_checks_other_keys:
  "k \<noteq> ''pattern'' \<Longrightarrow> k \<noteq> ''minLength'' \<Longrightarrow> k \<noteq> ''maxLength'' \<Longrightarrow>
     snd (string_checks cs config) k = config k"
  by (induction cs config rule: string_checks.induct) auto

lemma number_checks_other_keys:
  "k \<noteq> ''min'' \<Longrightarrow> k \<noteq> ''max'' \<Longrightarrow> k \<noteq> ''step'' \<Longrightarrow>
     fst (number_checks cs st) k = fst st k"
  by (induction cs st rule: number_checks.induct) auto

lemma string_rules_other_keys:
  "k = ''showWhen'' \<or> k = ''fields'' \<Longrightarrow> string_rules cs rules k = rules k"
  by (induction cs rules rule: string_rules.induct) auto

lemma number_rules_other_keys:
  "k = ''showWhen'' \<or> k = ''fields'' \<Longrightarrow> number_rules cs rules k = rules k"
  by (induction cs rules rule: number_rules.induct) auto

lemma mapper_never_sets:
  "k = ''showWhen'' \<or> k = ''fields'' \<Longrightarrow> snd (mapZodTypeToFieldType rt t p) k = None"
proof (induction rt t p rule: mapZodTypeToFieldType.induct)
  case (5 rt checks path)
  then show ?case by (auto simp: string_checks_other_keys)
next
  case (6 rt checks path)
  obtain config mn mx where r: "number_checks checks (Map.empty, None, None) = (config, mn, mx)"
    by (cases "number_checks checks (Map.empty, None, None)") auto
  from 6 have "fst (number_checks checks (Map.empty, None, None)) k = None"
    by (subst number_checks_other_keys) auto
  with r show ?case by (auto split: option.splits)
qed (auto simp: Let_def split: prod.splits option.splits)

lemma rules_never_set:
  "k = ''showWhen'' \<or> k = ''fields'' \<Longrightarrow> extractValidationRules t k = None"
  by (induction t rule: extractValidationRules.induct)
     (auto simp: string_rules_other_keys number_rules_other_keys Let_def split: option.splits)

lemma analyzeField_never_sets:
  assumes k: "k = ''showWhen'' \<or> k = ''fields''"
  shows "config_get (fa_config (analyzeField rt n t p)) k = JUndefined"
proof -
  obtain ft config where
    m: "mapZodTypeToFieldType rt t (if p \<noteq> [] then p @ ''.'' @ n else n) = (ft, config)"
    by (cases "mapZodTypeToFieldType rt t (if p \<noteq> [] then p @ ''.'' @ n else n)") auto
  from mapper_never_sets [OF k, of rt t "if p \<noteq> [] then p @ ''.'' @ n else n"] m
  have "config k = None" by simp
  with rules_never_set [OF k, of t] m show ?thesis
    by (simp add: analyzeField_def config_get_def map_add_def Let_def)
qed

lemma update_values: "snd ` set (AList.update k v al) \<subseteq> insert v (snd ` set al)"
  by (induction al) auto

lemma fold_update_values:
  assumes "\<And>x. x \<in> snd ` set acc \<Longrightarrow> P x" and "\<And>k t. (k, t) \<in> set xs \<Longrightarrow> P (g k t)"
  shows "x \<in> snd ` set (fold (\<lambda>(k, t) acc. AList.update k (g k t) acc) xs acc) \<Longrightarrow> P x"
  using assms
proof (induction xs arbitrary: acc)
  case Nil
  then show ?case by simp
next
  case (Cons a xs)
  obtain k t where a: "a = (k, t)" by (cases a)
  have "\<And>y. y \<in> snd ` set (AList.update k (g k t) acc) \<Longrightarrow> P y"
  proof -
    fix y assume "y \<in> snd ` set (AList.update k (g k t) acc)"
    then have "y = g k t \<or> y \<in> snd ` set acc"
      using update_values [of k "g k t" acc] by auto
    with Cons.prems(2,3) [unfolded a] show "P y" by auto
  qed
  with Cons.IH [of "AList.update k (g k t) acc"] Cons.prems a show ?case by auto
qed

lemma parsed_fields_carry_no_rule:
  assumes "f \<in> set (sa_fields (analyzeSchema rt schema))"
  shows "config_get (fa_config f) ''showWhen'' = JUndefined \<and>
         config_get (fa_config f) ''fields'' = JUndefined"
proof (cases schema)
  case (ZodObject shape)
  with assms have
    "f \<in> snd ` set (fold (\<lambda>(k, t) acc. AList.update k (analyzeField rt k t []) acc) shape [])"
    by (simp add: analyzeSchema_def Let_def)
  then show ?thesis
    by (rule fold_update_values [rotated -1]) (auto simp: analyzeField_never_sets)
qed (use assms in \<open>auto simp: analyzeSchema_def Let_def\<close>)

text \<open>Hence the classification depends on the number of fields and on the presence of
  array and object fields only: \<open>complex\<close> is reached by more than twenty fields and by
  nothing else.\<close>

lemma complexity_by_count_and_kinds:
  "sa_complexity (analyzeSchema rt schema) =
     (if length (sa_fields (analyzeSchema rt schema)) > 20 then Complex
      else if hasArrays (analyzeSchema rt schema) \<or> hasObjects (analyzeSchema rt schema) \<or>
              length (sa_fields (analyzeSchema rt schema)) > 10 then Moderate
      else Simple)"
proof -
  have "\<forall>f \<in> set (map snd (parseSchema rt schema [])).
          config_get (fa_config f) ''showWhen'' = JUndefined \<and>
          config_get (fa_config f) ''fields'' = JUndefined"
    using parsed_fields_carry_no_rule [of _ rt schema] by (simp add: analyzeSchema_def Let_def)
  then show ?thesis
    by (auto simp: analyzeSchema_def Let_def)
qed

text \<open>
  C3. The claim has an object schema classified \<open>complex\<close> when an object-typed field's
  nested shape has more than five properties. The analyzer does test
  \<^verbatim>\<open>field.config.fields\<close> for more than five keys, but the field definitions it is given
  never carry that key. For the schema
  \<^verbatim>\<open>z.object({ address: z.object({ street, city, state, zip, country, unit }) })\<close>, all six
  of them strings, the analysis has one object field and the complexity is \<open>moderate\<close>.
\<close>

theorem nested_shape_stays_moderate:
  "sa_complexity (analyzeSchema rt nested_address_schema) = Moderate \<and>
   hasObjects (analyzeSchema rt nested_address_schema) = True \<and>
   map fa_type (sa_fields (analyzeSchema rt nested_address_schema)) = [FObject]"
  by (simp add: nested_address_schema_def analyzeSchema_def analyzeField_def config_get_def Let_def)

section \<open>Properties of the Default Value Synthesizer\<close>

lemma fold_keeps_key_absent:
  assumes "\<And>p acc. p \<in> set xs \<Longrightarrow> key \<notin> fst ` set acc \<Longrightarrow> key \<notin> fst ` set (step p acc)"
    and "key \<notin> fst ` set acc"
  shows "key \<notin> fst ` set (fold step xs acc)"
  using assms by (induction xs arbitrary: acc) auto

lemma obj_get_absent: "key \<notin> fst ` set kvs \<Longrightarrow> obj_get kvs key = JUndefined"
  by (induction kvs) auto

text \<open>
  C10. Default-value synthesis looks at the outermost kind of each property only. For
  every object schema (its property names distinct, as in any object), a top-level
  property wrapped in \<open>optional\<close> or \<open>nullable\<close> has no key in the synthesized tree,
  whatever the wrapped schema is: a string, number or boolean inside the wrapper does not
  get its base-kind default.
\<close>

theorem optional_property_omitted:
  assumes "distinct (map fst shape)" and "(key, t) \<in> set shape"
    and "t = ZodOptional inner \<or> t = ZodNullable inner"
  shows "key \<notin> fst ` set (generateDefaultValues (ZodObject shape)) \<and>
         obj_get (generateDefaultValues (ZodObject shape)) key = JUndefined"
proof -
  have same: "t' = t" if "(key, t') \<in> set shape" for t'
    using assms(1,2) that by (meson eq_key_imp_eq_value)
  have "key \<notin> fst ` set (generateDefaultValues (ZodObject shape))"
    unfolding generateDefaultValues.simps
  proof (rule fold_keeps_key_absent)
    fix p :: "string \<times> zod" and acc :: jsobj
    assume p: "p \<in> set shape" and acc: "key \<notin> fst ` set acc"
    obtain k t' where kt: "p = (k, t')" by (cases p)
    show "key \<notin> fst ` set ((case p of (key, zodType) \<Rightarrow> \<lambda>defaults.
             case zodType of
               ZodDefault innerType d \<Rightarrow> AList.update key d defaults
             | ZodArray item mn mx \<Rightarrow> AList.update key (JArr []) defaults
             | ZodObject s \<Rightarrow> AList.update key (JObj (generateDefaultValues zodType)) defaults
             | ZodBoolean \<Rightarrow> AList.update key (JBool False) defaults
             | ZodNumber checks \<Rightarrow> AList.update key (JNum (Fin 0)) defaults
             | ZodString checks \<Rightarrow> AList.update key (JStr []) defaults
             | _ \<Rightarrow> defaults) acc)"
    proof (cases "k = key")
      case True
      with p kt same have "t' = t" by simp
      with assms(3) kt acc show ?thesis by auto
    next
      case False
      with kt acc show ?thesis by (cases t') (auto simp: dom_update)
    qed
  qed simp
  then show ?thesis by (simp add: obj_get_absent)
qed

text \<open>The theorem at \<^verbatim>\<open>z.object({ name: z.string(), nick: z.string().optional(),
  age: z.number().nullable(), ok: z.boolean().optional() })\<close>: only \<open>name\<close> gets a default.\<close>

theorem optional_property_omitted_witness:
  "generateDefaultValues
      (ZodObject [(''name'', ZodString []), (''nick'', ZodOptional (ZodString [])),
                  (''age'', ZodNullable (ZodNumber [])), (''ok'', ZodOptional ZodBoolean)])
     = [(''name'', JStr [])] \<and>
   ''nick'' \<notin> fst ` set (generateDefaultValues
      (ZodObject [(''name'', ZodString []), (''nick'', ZodOptional (ZodString [])),
                  (''age'', ZodNullable (ZodNumber [])), (''ok'', ZodOptional ZodBoolean)]))"
  using optional_property_omitted
    [of "[(''name'', ZodString []), (''nick'', ZodOptional (ZodString [])),
          (''age'', ZodNullable (ZodNumber [])), (''ok'', ZodOptional ZodBoolean)]"
        "''nick''" "ZodOptional (ZodString [])" "ZodString []"]
  by simp

section \<open>Properties of the Validator\<close>

text \<open>
  C7. For every schema and candidate value, whatever the schema's own validation does,
  \<open>validate\<close> returns a result and throws nothing. If the validation throws, the result
  has \<open>success = false\<close> and exactly one error, with field \<open>root\<close> and code \<open>custom\<close>.
  Otherwise a successful parse gives \<open>success = true\<close> with no errors, and a failed one
  gives one error per issue, in order, carrying the issue's code, message and path, and
  as field the path's segments joined with a dot.
\<close>

theorem validate_never_throws:
  "\<exists>r. validateWithSchema safeParse schema d = Inr r \<and>
     (case safeParse schema d of
        Inl e \<Rightarrow>
          vr_success r = False \<and>
          vr_errors r = [\<lparr> ve_field = ''root'', ve_message = ''Schema validation failed'',
                           ve_code = ''custom'', ve_path = [] \<rparr>]
      | Inr (ParseSuccess parsed) \<Rightarrow>
          vr_success r = True \<and> vr_data r = parsed \<and> vr_errors r = []
      | Inr (ParseFailure issues) \<Rightarrow>
          vr_success r = False \<and>
          vr_errors r =
            map (\<lambda>err. \<lparr> ve_field = intercalate ''.'' (map segment_string (issue_path err)),
                         ve_message = issue_message err,
                         ve_code = issue_code err,
                         ve_path = issue_path err \<rparr>) issues)"
  by (simp add: validateWithSchema_def try_catch_def join_path_def
           split: sum.splits SafeParseReturn.splits)

section \<open>Properties of the Conditional Visibility Evaluator\<close>

lemma fold_update_other:
  "k \<notin> fst ` set xs \<Longrightarrow>
     map_of (fold (\<lambda>(n, f) acc. AList.update n (g f) acc) xs acc) k = map_of acc k"
  by (induction xs arbitrary: acc) (auto simp: update_conv')

lemma fold_update_lookup:
  "distinct (map fst xs) \<Longrightarrow> (k, v) \<in> set xs \<Longrightarrow>
     map_of (fold (\<lambda>(n, f) acc. AList.update n (g f) acc) xs acc) k = Some (g v)"
proof (induction xs arbitrary: acc)
  case Nil
  then show ?case by simp
next
  case (Cons p xs)
  obtain n f where p: "p = (n, f)" by (cases p)
  show ?case
  proof (cases "(k, v) = p")
    case True
    with p Cons.prems have "k \<notin> fst ` set xs" by auto
    with True p show ?thesis by (simp add: fold_update_other update_conv')
  next
    case False
    with Cons.prems have "(k, v) \<in> set xs" "distinct (map fst xs)" by auto
    with Cons.IH p show ?thesis by simp
  qed
qed

text \<open>
  C8. For every set of field definitions (their names distinct, as in any object), every
  mapping of current values and every behaviour of the language's comparisons: a field
  with no visibility rule is marked visible, and so is a field whose rule carries an
  operator that is none of \<open>equals\<close>, \<open>not-equals\<close>, \<open>contains\<close>, \<open>greater-than\<close> and
  \<open>less-than\<close>, whatever the value of the field it depends on.
\<close>

theorem visible_without_rule_or_unknown_operator:
  assumes "distinct (map fst flds)" and "(name, fld) \<in> set flds"
    and "\<not> truthy (config_get (fa_config fld) ''showWhen'') \<or>
         js_get (config_get (fa_config fld) ''showWhen'') ''operator'' \<notin>
           {JUndefined, JStr ''equals'', JStr ''not-equals'', JStr ''contains'',
            JStr ''greater-than'', JStr ''less-than''}"
  shows "map_of (useConditionalFields rt flds formValues) name = Some True"
proof -
  have "field_visible rt fld formValues = True"
    using assms(3) by (auto simp: field_visible_def Let_def)
  with fold_update_lookup [OF assms(1,2), of "\<lambda>f. field_visible rt f formValues" "[]"]
  show ?thesis by (simp add: useConditionalFields_def)
qed

text \<open>The theorem at two fields, \<open>contactPreference\<close> without a rule and \<open>phoneNumber\<close> with
  a rule whose operator is \<open>matches\<close>: both are visible.\<close>

theorem visible_without_rule_or_unknown_operator_witness:
  "useConditionalFields sample_runtime contact_fields [(''contactPreference'', JStr ''email'')] =
     [(''contactPreference'', True), (''phoneNumber'', True)] \<and>
   map_of (useConditionalFields sample_runtime contact_fields
             [(''contactPreference'', JStr ''email'')]) ''contactPreference'' = Some True \<and>
   map_of (useConditionalFields sample_runtime contact_fields
             [(''contactPreference'', JStr ''email'')]) ''phoneNumber'' = Some True"
proof -
  have d: "distinct (map fst contact_fields)"
    by (simp add: contact_fields_def)
  have m1: "(''contactPreference'', snd (contact_fields ! 0)) \<in> set contact_fields"
    and m2: "(''phoneNumber'', snd (contact_fields ! 1)) \<in> set contact_fields"
    by (simp_all add: contact_fields_def)
  have h1: "\<not> truthy (config_get (fa_config (snd (contact_fields ! 0))) ''showWhen'') \<or>
         js_get (config_get (fa_config (snd (contact_fields ! 0))) ''showWhen'') ''operator'' \<notin>
           {JUndefined, JStr ''equals'', JStr ''not-equals'', JStr ''contains'',
            JStr ''greater-than'', JStr ''less-than''}"
    by (simp add: contact_fields_def config_get_def)
  have h2: "\<not> truthy (config_get (fa_config (snd (contact_fields ! 1))) ''showWhen'') \<or>
         js_get (config_get (fa_config (snd (contact_fields ! 1))) ''showWhen'') ''operator'' \<notin>
           {JUndefined, JStr ''equals'', JStr ''not-equals'', JStr ''contains'',
            JStr ''greater-than'', JStr ''less-than''}"
    by (simp add: contact_fields_def config_get_def)
  have e: "useConditionalFields sample_runtime contact_fields [(''contactPreference'', JStr ''email'')] =
     [(''contactPreference'', True), (''phoneNumber'', True)]"
    by (simp add: useConditionalFields_def contact_fields_def field_visible_def config_get_def Let_def)
  from visible_without_rule_or_unknown_operator [OF d m1 h1]
       visible_without_rule_or_unknown_operator [OF d m2 h2] e
  show ?thesis by simp
qed

section \<open>Properties of the Document Sync Engine\<close>













section \<open>The library's own examples\<close>

text \<open>The cases of the library's test suite for the schema parser, and two scenarios of
  its specification, hold of the model.\<close>

lemma test_long_string_textarea:
  "fst (mapZodTypeToFieldType rt (ZodString [SMin (Fin 100)]) []) = FTextarea"
  by (simp add: num_ge_def)

lemma test_email_field:
  "fst (mapZodTypeToFieldType rt (ZodString [SEmail]) []) = FEmail"
  by simp

lemma test_small_range:
  "mapZodTypeToFieldType sample_runtime (ZodNumber [NMin (Fin 1) True, NMax (Fin 5) True]) [] =
     (FRange, [''min'' \<mapsto> JNum (Fin 1), ''max'' \<mapsto> JNum (Fin 5)])"
  by (simp add: sample_runtime_def)

lemma scenario_wide_range_is_number:
  "fst (mapZodTypeToFieldType sample_runtime
          (ZodNumber [NMin (Fin 1) True, NMax (Fin 100) True]) []) = FNumber"
  by (simp add: sample_runtime_def)

lemma test_enum_labels:
  "mapZodTypeToFieldType sample_runtime (ZodEnum [''option1'', ''option2'']) [] =
     (FRadio,
      [''options'' \<mapsto>
         JArr [JObj [(''label'', JStr ''Option1''), (''value'', JStr ''option1'')],
               JObj [(''label'', JStr ''Option2''), (''value'', JStr ''option2'')]]])"
  by (simp add: sample_runtime_def option_of_def capitalize_def ascii_upper_def char_of_def
                bit_Suc_0_iff)

lemma test_parse_simple_object:
  "map (\<lambda>(k, f). (k, fa_type f, fa_required f))
       (parseSchema rt (ZodObject [(''name'', ZodString []), (''age'', ZodNumber []),
                                   (''email'', ZodString [SEmail]),
                                   (''phone'', ZodOptional (ZodString []))]) []) =
     [(''name'', FText, True), (''age'', FNumber, True), (''email'', FEmail, True),
      (''phone'', FText, False)]"
  by (simp add: analyzeField_def config_get_def Let_def)

lemma test_default_values:
  "generateDefaultValues
      (ZodObject [(''name'', ZodString []), (''age'', ZodNumber []), (''active'', ZodBoolean),
                  (''tags'', ZodArray (ZodString []) None None)]) =
     [(''name'', JStr []), (''age'', JNum (Fin 0)), (''active'', JBool False),
      (''tags'', JArr [])]"
  by simp

lemma test_declared_defaults:
  "generateDefaultValues
      (ZodObject [(''name'', ZodDefault (ZodString []) (JStr ''John'')),
                  (''count'', ZodDefault (ZodNumber []) (JNum (Fin 5)))]) =
     [(''name'', JStr ''John''), (''count'', JNum (Fin 5))]"
  by simp

text \<open>A save with neither collection nor document reference throws, records the error
  and writes nothing.\<close>

lemma save_without_target_throws:
  "saveToFirestore store_ok (users_config\<lparr>collectionName := None\<rparr>)
       (initial_state (users_config\<lparr>collectionName := None\<rparr>))
       (JObj [(''title'', JStr ''x'')]) (JObj []) =
     (Inl no_target,
      \<lparr> loading = False, saving = False, error = Some no_target, currentDocId = None \<rparr>,
      [])"
  by (simp add: saveToFirestore_def save_try_def write_doc_def assemble_def Let_def
                users_config_def initial_state_def)

text \<open>Scenario 6: \<open>phoneNumber\<close> is shown exactly when \<open>contactPreference\<close> is \<open>phone\<close>.\<close>

lemma scenario_equals_rule:
  "map_of (useConditionalFields sample_runtime
             [(''phoneNumber'',
               \<lparr> fa_name = ''phoneNumber'', fa_type = FText, fa_zodType = ''ZodString'',
                 fa_required = True,
                 fa_config = [''showWhen'' \<mapsto> JObj [(''field'', JStr ''contactPreference''),
                                                        (''value'', JStr ''phone''),
                                                        (''operator'', JStr ''equals'')]],
                 fa_defaultValue = JUndefined \<rparr>)]
             [(''contactPreference'', v)]) ''phoneNumber''
     = Some (v = JStr ''phone'')"
  by (auto simp: useConditionalFields_def field_visible_def config_get_def sample_runtime_def
                 Let_def)

end
